theory Spec2Isabelle
  imports Main "HOL-Library.Word"
begin

section \<open>The C++ binding header \<^verbatim>\<open>api/sixtyfps-cpp/include/sixtyfps.h\<close>\<close>

text \<open>
  The header has three functions: the template \<^verbatim>\<open>run\<close>, the empty
  \<^verbatim>\<open>dummy_destory\<close> and the constexpr constructor \<^verbatim>\<open>make_item_node\<close>.
  They are embedded below in the order the data they use is needed.
\<close>

subsection \<open>Pointers and opaque structures\<close>

text \<open>
  \<^verbatim>\<open>struct ComponentType;\<close> is only forward declared, and \<^verbatim>\<open>ComponentImpl\<close> and
  \<^verbatim>\<open>ItemVTable\<close> are never looked into by the header: all three are opaque types.
\<close>

typedecl ComponentType
typedecl ComponentImpl
typedecl ItemVTable

text \<open>
  A pointer is an address; the pointee type is kept as a type argument only, so that
  \<^verbatim>\<open>reinterpret_cast\<close> changes the type and keeps the address.
\<close>

datatype 'a ptr = Ptr (addr: nat)

definition reinterpret_cast :: "'a ptr \<Rightarrow> 'b ptr" where
  "reinterpret_cast p = Ptr (addr p)"

subsection \<open>Item tree nodes\<close>

text \<open>
  \<^verbatim>\<open>std::intptr_t\<close> is a signed integer as wide as a pointer (\<open>'p\<close> bits, read with
  \<open>sint\<close>); \<^verbatim>\<open>uint32_t\<close> is a 32-bit unsigned integer.
\<close>

type_synonym 'p intptr_t = "'p word"
type_synonym uint32_t = "32 word"

text \<open>
  Modelled from the spec: the declaration of \<^verbatim>\<open>ItemTreeNode\<close> is in the generated
  header \<^verbatim>\<open>sixtyfps_internal.h\<close>, which is not part of the sources at hand. The
  constructor's initialiser list shows its shape: a tag followed by a union whose first
  member is an \<^verbatim>\<open>Item_Body\<close> of four fields, in the order offset, vtable, child count,
  child index. The spec names the second tag \<open>DynamicTree\<close> and leaves its body open, so
  that body is the type parameter \<open>'d\<close>. The type of the offset field is the parameter
  \<open>'o\<close>, instantiated by \<open>'p intptr_t\<close> in the constructor.
\<close>

datatype Tag = Item | DynamicTree

record 'o Item_Body =
  offset :: 'o
  vtable :: "ItemVTable ptr"
  child_count :: uint32_t
  child_index :: uint32_t

datatype ('o, 'd) ItemTreeNode_union = item "'o Item_Body" | dynamic_tree 'd

record ('o, 'd) ItemTreeNode =
  tag :: Tag
  body :: "('o, 'd) ItemTreeNode_union"

text \<open>
  \<^verbatim>\<open>constexpr inline ItemTreeNode make_item_node(std::intptr_t offset,
      const internal::ItemVTable *vtable, uint32_t child_count, uint32_t child_index)
  { return ItemTreeNode { ItemTreeNode::Tag::Item,
        { ItemTreeNode::Item_Body { offset, vtable, child_count, child_index } } }; }\<close>

  The vtable pointer is stored, never dereferenced.
\<close>

definition make_item_node ::
  "('p::len) intptr_t \<Rightarrow> ItemVTable ptr \<Rightarrow> uint32_t \<Rightarrow> uint32_t
     \<Rightarrow> ('p intptr_t, 'd) ItemTreeNode" where
  "make_item_node off vt cc ci =
     \<lparr> tag = Item,
       body = item \<lparr> offset = off, vtable = vt, child_count = cc, child_index = ci \<rparr> \<rparr>"

text \<open>
  The same function as a call in a running program, whose state is any type \<open>'w\<close>.
  The body is the single \<^verbatim>\<open>return\<close> of an aggregate of the four parameters: it reads
  no object but its parameters and writes none, so the call returns the node and the
  state it was made in.
\<close>

definition make_item_node_call ::
  "('p::len) intptr_t \<Rightarrow> ItemVTable ptr \<Rightarrow> uint32_t \<Rightarrow> uint32_t \<Rightarrow> 'w
     \<Rightarrow> ('p intptr_t, 'd) ItemTreeNode \<times> 'w" where
  "make_item_node_call off vt cc ci w = (make_item_node off vt cc ci, w)"

subsection \<open>Starting a component\<close>

text \<open>
  \<^verbatim>\<open>sixtyfps_runtime_run_component_with_gl_renderer\<close> is declared in
  \<^verbatim>\<open>sixtyfps_gl_internal.h\<close> and implemented by the runtime; the header only calls it.
  It is a parameter of the model: a function of the component type pointer, the
  instance pointer and the state of the program (\<open>'w\<close>, window and event loop
  included), returning the state in which it returns, or \<open>None\<close> when it does not
  return (the process is aborted, or the event loop never ends).
\<close>

type_synonym 'w renderer = "ComponentType ptr \<Rightarrow> ComponentImpl ptr \<Rightarrow> 'w \<Rightarrow> 'w option"

text \<open>
  The template argument \<^verbatim>\<open>Component\<close> is a type \<open>'c\<close> with a static member
  \<^verbatim>\<open>component_type\<close>; what the function uses of it is the address
  \<^verbatim>\<open>&Component::component_type\<close>, fixed with the type.
\<close>

datatype 'c Component = Component (component_type: "ComponentType ptr")

text \<open>
  \<^verbatim>\<open>template<typename Component> void run(Component *c)
  { internal::sixtyfps_runtime_run_component_with_gl_renderer(
        &Component::component_type, reinterpret_cast<internal::ComponentImpl *>(c)); }\<close>
\<close>

definition run :: "'w renderer \<Rightarrow> 'c Component \<Rightarrow> 'c ptr \<Rightarrow> 'w \<Rightarrow> 'w option" where
  "run sixtyfps_runtime_run_component_with_gl_renderer C c =
     sixtyfps_runtime_run_component_with_gl_renderer (component_type C) (reinterpret_cast c)"

text \<open>
  A renderer that does nothing but note the arguments of each call, in call order, and
  return: the state is the list of the calls made so far. Running a component against it
  shows which calls \<open>run\<close> makes.
\<close>

definition noting_renderer :: "(ComponentType ptr \<times> ComponentImpl ptr) list renderer" where
  "noting_renderer d i calls = Some (calls @ [(d, i)])"

subsection \<open>Destruction of a static component\<close>

text \<open>
  \<^verbatim>\<open>inline void dummy_destory(const ComponentType *, internal::ComponentImpl *) { }\<close>

  The body is empty and the parameters are unnamed, so the state of the program
  (any type \<open>'w\<close>) after the call is the state before it.
\<close>

definition dummy_destory :: "ComponentType ptr \<Rightarrow> ComponentImpl ptr \<Rightarrow> 'w \<Rightarrow> 'w" where
  "dummy_destory t i w = w"

subsection \<open>Item trees\<close>

text \<open>
  An item tree is the sequence of its nodes. Reading a node goes through the tag: the
  \<open>item\<close> member of the union is meaningful only under the tag \<open>Item\<close>.
\<close>

type_synonym ('o, 'd) ItemTree = "('o, 'd) ItemTreeNode list"

definition item_body :: "('o, 'd) ItemTreeNode \<Rightarrow> 'o Item_Body option" where
  "item_body n =
     (case tag n of
        Item \<Rightarrow> (case body n of item b \<Rightarrow> Some b | dynamic_tree d \<Rightarrow> None)
      | DynamicTree \<Rightarrow> None)"

text \<open>
  Following the spec's words (the header has no function that reads a child range): the
  children of a node are the contiguous run of indices from \<open>child_index\<close> up to, and
  without, \<open>child_index + child_count\<close>. The sum is taken in the natural numbers: it
  does not wrap at 32 bits.
\<close>

definition child_range :: "'o Item_Body \<Rightarrow> nat list" where
  "child_range b = [unat (child_index b) ..< unat (child_index b) + unat (child_count b)]"

text \<open>
  Following the spec's words: the invariant of a tree of \<open>N\<close> nodes, that the child
  range of every item node lies within the indices \<open>0\<close> to \<open>N - 1\<close>.
\<close>

definition range_within :: "nat \<Rightarrow> ('o, 'd) ItemTreeNode \<Rightarrow> bool" where
  "range_within N n =
     (case item_body n of None \<Rightarrow> True | Some b \<Rightarrow> (\<forall>j \<in> set (child_range b). j < N))"

definition item_tree_in_bounds :: "('o, 'd) ItemTree \<Rightarrow> bool" where
  "item_tree_in_bounds tree = (\<forall>n \<in> set tree. range_within (length tree) n)"

text \<open>
  The tree built from a list of argument tuples, one call of the constructor each.
\<close>

definition build_item_tree ::
  "(('p::len) intptr_t \<times> ItemVTable ptr \<times> uint32_t \<times> uint32_t) list
     \<Rightarrow> ('p intptr_t, 'd) ItemTree" where
  "build_item_tree args = map (\<lambda>(off, vt, cc, ci). make_item_node off vt cc ci) args"

text \<open>
  Modelled from the spec: the walk of the item tree is done by the runtime behind
  \<^verbatim>\<open>sixtyfps_runtime_run_component_with_gl_renderer\<close>, which is not part of the sources
  at hand. By the spec it starts at the root, processes each item through its
  descriptor, recurses into the children by the child index and child count, in index
  order, and at a \<open>DynamicTree\<close> node asks a resolver supplied by the runtime for the
  subtree and descends into it from its root. The model returns the items in the order
  they are processed, each with its index in the tree it belongs to. It returns \<open>None\<close>
  where the walk would leave the tree (an index beyond the sequence) or read a union
  member that the tag does not announce. A tree in which a node is its own descendant
  makes the walk descend for ever: the first argument bounds the depth of the descent,
  and \<open>None\<close> is also the result when that bound is reached.
\<close>

fun visit_internal ::
    "nat \<Rightarrow> ('d \<Rightarrow> ('o, 'd) ItemTree) \<Rightarrow> ('o, 'd) ItemTree \<Rightarrow> nat
       \<Rightarrow> (nat \<times> 'o Item_Body) list option"
  and visit_children ::
    "nat \<Rightarrow> ('d \<Rightarrow> ('o, 'd) ItemTree) \<Rightarrow> ('o, 'd) ItemTree \<Rightarrow> nat list
       \<Rightarrow> (nat \<times> 'o Item_Body) list option" where
  "visit_internal 0 resolve tree i = None"
| "visit_internal (Suc depth) resolve tree i =
     (if i < length tree then
        (case tag (tree ! i) of
           Item \<Rightarrow>
             (case body (tree ! i) of
                item b \<Rightarrow> map_option (Cons (i, b)) (visit_children depth resolve tree (child_range b))
              | dynamic_tree d \<Rightarrow> None)
         | DynamicTree \<Rightarrow>
             (case body (tree ! i) of
                item b \<Rightarrow> None
              | dynamic_tree d \<Rightarrow> visit_internal depth resolve (resolve d) 0))
      else None)"
| "visit_children depth resolve tree [] = Some []"
| "visit_children depth resolve tree (j # js) =
     (case visit_internal depth resolve tree j of
        None \<Rightarrow> None
      | Some visited \<Rightarrow> map_option ((@) visited) (visit_children depth resolve tree js))"

definition visit_items ::
  "nat \<Rightarrow> ('d \<Rightarrow> ('o, 'd) ItemTree) \<Rightarrow> ('o, 'd) ItemTree \<Rightarrow> (nat \<times> 'o Item_Body) list option" where
  "visit_items depth resolve tree = visit_internal depth resolve tree 0"

section \<open>The item node constructor\<close>

text \<open>
  C1. For every offset, vtable pointer, child count and child index the constructor
  returns a node (it has no failing branch and checks nothing about its arguments), and
  reading the node back gives the tag \<open>Item\<close>, the \<open>item\<close> member of the union, and in
  it exactly the four values that were passed.
\<close>

theorem make_item_node_roundtrip:
  "tag (make_item_node off vt cc ci) = Item
   \<and> (\<exists>b. body (make_item_node off vt cc ci) = item b
          \<and> offset b = off \<and> vtable b = vt \<and> child_count b = cc \<and> child_index b = ci)"
  by (simp add: make_item_node_def)

text \<open>
  C8. A call of the constructor is deterministic and without side effects: two calls
  with equal arguments, made in any two states of the program, return equal nodes, and
  after each call the state of the program is the state before it.
\<close>

theorem make_item_node_call_pure:
  "((off, vt, cc, ci) = (off', vt', cc', ci') \<longrightarrow>
      fst (make_item_node_call off vt cc ci w) = fst (make_item_node_call off' vt' cc' ci' w'))
   \<and> snd (make_item_node_call off vt cc ci w) = w
   \<and> snd (make_item_node_call off' vt' cc' ci' w') = w'"
  by (simp add: make_item_node_call_def)

theorem make_item_node_call_pure_witness:
  "fst (make_item_node_call (8 :: 64 word) (Ptr 3) 2 1 (0 :: nat))
     = (fst (make_item_node_call (8 :: 64 word) (Ptr 3) 2 1 (5 :: nat))
          :: (64 word, unit) ItemTreeNode)
   \<and> snd (make_item_node_call (8 :: 64 word) (Ptr 3) 2 1 (0 :: nat)
            :: (64 word, unit) ItemTreeNode \<times> nat) = 0
   \<and> snd (make_item_node_call (8 :: 64 word) (Ptr 3) 2 1 (5 :: nat)
            :: (64 word, unit) ItemTreeNode \<times> nat) = 5"
proof -
  have same: "(8 :: 64 word, Ptr 3 :: ItemVTable ptr, 2 :: uint32_t, 1 :: uint32_t)
                = (8, Ptr 3, 2, 1)"
    by simp
  from make_item_node_call_pure
         [where off = "8 :: 64 word" and vt = "Ptr 3" and cc = 2 and ci = 1
            and off' = "8 :: 64 word" and vt' = "Ptr 3" and cc' = 2 and ci' = 1
            and w = "0 :: nat" and w' = "5 :: nat"] same
  show ?thesis by blast
qed

text \<open>
  C9. Whatever the arguments, the node returned by the constructor has the tag
  \<open>Item\<close>: its tag is never \<open>DynamicTree\<close> and its union never holds a
  \<open>dynamic_tree\<close> body.
\<close>

theorem make_item_node_tag_Item:
  "tag (make_item_node off vt cc ci) = Item
   \<and> tag (make_item_node off vt cc ci) \<noteq> DynamicTree
   \<and> (\<forall>d. body (make_item_node off vt cc ci) \<noteq> dynamic_tree d)"
  by (simp add: make_item_node_def)

section \<open>Starting and destroying a component\<close>

text \<open>
  C2. Whatever the renderer does, running a component is one call of the renderer's
  entry point and nothing else: \<open>run\<close> gives the renderer the address of the
  component type of \<open>Component\<close> and the instance pointer, recast to a
  \<open>ComponentImpl\<close> pointer with its address unchanged, and its outcome is the outcome
  of that call. Against the renderer that notes its calls, exactly one call is added to
  the calls made before, with these two arguments.
\<close>

theorem run_is_one_renderer_call:
  "run r C c = r (component_type C) (reinterpret_cast c)
   \<and> addr (reinterpret_cast c :: ComponentImpl ptr) = addr c
   \<and> run noting_renderer C c calls = Some (calls @ [(component_type C, reinterpret_cast c)])"
  by (simp add: run_def noting_renderer_def reinterpret_cast_def)

text \<open>
  C10. The component type pointer that \<open>run\<close> hands to the renderer is the static
  member of the template argument, whatever the instance pointer: a renderer that looks
  at its first argument only sees \<open>component_type C\<close>, and the first components of the
  calls noted for two instance pointers \<open>c\<close> and \<open>c'\<close> of the same \<open>Component\<close> are
  the same.
\<close>

theorem run_descriptor_fixed_by_type:
  "run (\<lambda>d i. r d) C c = r (component_type C)
   \<and> map_option (map fst) (run noting_renderer C c calls)
       = Some (map fst calls @ [component_type C])
   \<and> map_option (map fst) (run noting_renderer C c calls)
       = map_option (map fst) (run noting_renderer C c' calls)"
  by (simp add: run_def noting_renderer_def)

text \<open>
  C5. Destroying a static component does nothing: after any number of calls of
  \<open>dummy_destory\<close>, each with any component type pointer and any instance pointer,
  the state of the program is the state before the first call.
\<close>

theorem dummy_destory_no_effect:
  "fold (\<lambda>(t, i). dummy_destory t i) calls w = w"
  by (induction calls) (auto simp: dummy_destory_def)

section \<open>Child ranges and the tree walk\<close>

lemma item_body_make_item_node:
  "item_body (make_item_node off vt cc ci)
     = Some \<lparr> offset = off, vtable = vt, child_count = cc, child_index = ci \<rparr>"
  by (simp add: item_body_def make_item_node_def)

lemma run_below_iff:
  "(\<forall>j \<in> {a ..< a + c}. j < N) = (c = 0 \<or> a + c \<le> (N::nat))"
proof (cases "c = 0")
  case True
  then show ?thesis by simp
next
  case False
  show ?thesis
  proof
    assume all: "\<forall>j \<in> {a ..< a + c}. j < N"
    from False have "a + c - 1 \<in> {a ..< a + c}" by simp
    with all have "a + c - 1 < N" by blast
    with False show "c = 0 \<or> a + c \<le> N" by simp
  next
    assume "c = 0 \<or> a + c \<le> N"
    with False show "\<forall>j \<in> {a ..< a + c}. j < N" by simp
  qed
qed

lemma range_within_make_item_node:
  "range_within N (make_item_node off vt cc ci) = (unat cc = 0 \<or> unat ci + unat cc \<le> N)"
  by (simp add: range_within_def item_body_make_item_node child_range_def run_below_iff)

text \<open>
  C4, as stated, fails: the constructor checks nothing, so a tree of one node built
  with child count 2 and child index 1 has the child range 1, 2 in a sequence whose only
  index is 0.
\<close>

theorem item_tree_in_bounds_counterexample:
  "\<not> item_tree_in_bounds
        (build_item_tree [(0 :: 64 word, Ptr 0, 2, 1)] :: (64 word, unit) ItemTree)"
  by (simp add: item_tree_in_bounds_def build_item_tree_def range_within_make_item_node)

text \<open>
  C4, amended. The constructor takes the child count and the child index as they are
  given, so a tree of \<open>N\<close> nodes built with it has every child range within the indices
  below \<open>N\<close> exactly when every argument tuple has a child count of 0 or a child index
  and child count whose sum (in the natural numbers) is at most \<open>N\<close>: the bound is a
  condition on what the caller passes, not something the construction ensures.
\<close>

theorem item_tree_in_bounds_iff_arguments:
  "item_tree_in_bounds (build_item_tree args)
     = (\<forall>(off, vt, cc, ci) \<in> set args. unat cc = 0 \<or> unat ci + unat cc \<le> length args)"
  by (auto simp: item_tree_in_bounds_def build_item_tree_def range_within_make_item_node)

theorem item_tree_in_bounds_iff_arguments_witness:
  "item_tree_in_bounds
     (build_item_tree [(0 :: 64 word, Ptr 0, 2, 1), (8, Ptr 1, 0, 0), (16, Ptr 1, 0, 0)]
        :: (64 word, unit) ItemTree)"
  using item_tree_in_bounds_iff_arguments
          [of "[(0 :: 64 word, Ptr 0, 2, 1), (8, Ptr 1, 0, 0), (16, Ptr 1, 0, 0)]"]
  by simp

lemma visit_children_concat:
  "visit_children depth resolve tree js
     = map_option concat (those (map (visit_internal depth resolve tree) js))"
proof (induction js)
  case Nil
  show ?case by simp
next
  case (Cons j js)
  show ?case
  proof (cases "visit_internal depth resolve tree j")
    case None
    then show ?thesis by simp
  next
    case (Some visited)
    with Cons show ?thesis
      by (simp add: option.map_comp comp_def)
  qed
qed

lemma visit_internal_item:
  assumes "i < length tree" and "item_body (tree ! i) = Some b"
  shows "visit_internal (Suc depth) resolve tree i
           = map_option (Cons (i, b)) (visit_children depth resolve tree (child_range b))"
proof -
  from assms(2) have "tag (tree ! i) = Item" and "body (tree ! i) = item b"
    by (auto simp: item_body_def split: Tag.splits ItemTreeNode_union.splits)
  with assms(1) show ?thesis by simp
qed

text \<open>
  C6. For the tree of a root built with child count 2 and child index 1 followed by two
  nodes built with child count 0, the walk from the root (with room for a descent of two
  levels or more, whatever the offsets, the vtable pointers, the child indices of the
  leaves and the resolver) processes exactly three items: the root, then the node at
  index 1, then the node at index 2. In any tree, the walk of an item node processes the
  node and then walks, one after the other and in index order, exactly the nodes at the
  indices from its child index up to, and without, child index plus child count.
\<close>

theorem walk_root_then_children:
  "visit_items (Suc (Suc k)) resolve
       [make_item_node o0 v0 2 1, make_item_node o1 v1 0 i1, make_item_node o2 v2 0 i2]
     = Some [(0, \<lparr> offset = o0, vtable = v0, child_count = 2, child_index = 1 \<rparr>),
             (1, \<lparr> offset = o1, vtable = v1, child_count = 0, child_index = i1 \<rparr>),
             (2, \<lparr> offset = o2, vtable = v2, child_count = 0, child_index = i2 \<rparr>)]
   \<and> (i < length tree \<longrightarrow> item_body (tree ! i) = Some b \<longrightarrow>
        visit_internal (Suc depth) resolve tree i
          = map_option (\<lambda>below. (i, b) # concat below)
              (those (map (visit_internal depth resolve tree)
                 [unat (child_index b) ..< unat (child_index b) + unat (child_count b)])))"
proof (intro conjI impI)
  show "visit_items (Suc (Suc k)) resolve
       [make_item_node o0 v0 2 1, make_item_node o1 v1 0 i1, make_item_node o2 v2 0 i2]
     = Some [(0, \<lparr> offset = o0, vtable = v0, child_count = 2, child_index = 1 \<rparr>),
             (1, \<lparr> offset = o1, vtable = v1, child_count = 0, child_index = i1 \<rparr>),
             (2, \<lparr> offset = o2, vtable = v2, child_count = 0, child_index = i2 \<rparr>)]"
    by (simp add: visit_items_def make_item_node_def child_range_def upt_rec)
next
  assume "i < length tree" and "item_body (tree ! i) = Some b"
  then show "visit_internal (Suc depth) resolve tree i
          = map_option (\<lambda>below. (i, b) # concat below)
              (those (map (visit_internal depth resolve tree)
                 [unat (child_index b) ..< unat (child_index b) + unat (child_count b)]))"
    by (simp only: visit_internal_item visit_children_concat child_range_def
          option.map_comp comp_def)
qed

theorem walk_root_then_children_witness:
  "\<forall>resolve :: unit \<Rightarrow> (64 word, unit) ItemTree.
     (0::nat) < length [make_item_node 0 (Ptr 7) 1 2, make_item_node 8 (Ptr 9) 0 0,
                 make_item_node 16 (Ptr 9) 0 0 :: (64 word, unit) ItemTreeNode]
     \<and> visit_internal (Suc (Suc 0)) resolve
         [make_item_node 0 (Ptr 7) 1 2, make_item_node 8 (Ptr 9) 0 0,
          make_item_node 16 (Ptr 9) 0 0] 0
       = Some [(0, \<lparr> offset = 0, vtable = Ptr 7, child_count = 1, child_index = 2 \<rparr>),
               (2, \<lparr> offset = 16, vtable = Ptr 9, child_count = 0, child_index = 0 \<rparr>)]"
proof (intro allI conjI)
  fix resolve :: "unit \<Rightarrow> (64 word, unit) ItemTree"
  let ?tree = "[make_item_node 0 (Ptr 7) 1 2, make_item_node 8 (Ptr 9) 0 0,
                make_item_node 16 (Ptr 9) 0 0] :: (64 word, unit) ItemTree"
  let ?b = "\<lparr> offset = 0 :: 64 word, vtable = Ptr 7, child_count = 1, child_index = 2 \<rparr>"
  show len: "(0::nat) < length ?tree" by simp
  have root: "item_body (?tree ! 0) = Some ?b"
    by (simp add: item_body_make_item_node)
  have leaf: "visit_internal (Suc 0) resolve ?tree 2
                = Some [(2, \<lparr> offset = 16, vtable = Ptr 9, child_count = 0, child_index = 0 \<rparr>)]"
    by (simp add: make_item_node_def child_range_def)
  from walk_root_then_children [where i = 0 and tree = ?tree and b = ?b and depth = "Suc 0"
      and resolve = resolve] len root
  have "visit_internal (Suc (Suc 0)) resolve ?tree 0
          = map_option (\<lambda>below. (0, ?b) # concat below)
              (those (map (visit_internal (Suc 0) resolve ?tree)
                 [unat (child_index ?b) ..< unat (child_index ?b) + unat (child_count ?b)]))"
    by blast
  also have "[unat (child_index ?b) ..< unat (child_index ?b) + unat (child_count ?b)] = [2]"
    by (simp add: upt_rec)
  finally show "visit_internal (Suc (Suc 0)) resolve ?tree 0
       = Some [(0, ?b),
               (2, \<lparr> offset = 16, vtable = Ptr 9, child_count = 0, child_index = 0 \<rparr>)]"
    by (simp only: list.map leaf those.simps option.case option.map concat.simps append.simps)
qed

end
